theory Spec2Isabelle
  imports Complex_Main "HOL-Library.Sublist"
begin

section \<open>Bytes, errors and streams\<close>

text \<open>
  Go strings and byte slices are sequences of bytes: \<open>string\<close> (a \<open>char list\<close>).
  The two control bytes of the protocol are the zero byte and the newline.
\<close>

definition NUL :: char where
  "NUL = CHR 0x00"

definition NL :: char where
  "NL = CHR 0x0A"

definition SP :: char where
  "SP = CHR 0x20"

text \<open>
  Go errors as values. \<open>ErrorString m\<close> is \<open>errors.New(m)\<close>; \<open>SessionError d e\<close>
  (\<open>d\<close> is "to" in the upload and "from" in the downloads) and \<open>ReadAllError e\<close>
  are the \<open>fmt.Errorf\<close> wrappers of the client; the others are the errors the
  collaborators (streams, session, context) hand in.
\<close>

datatype error =
    EOF
  | UnexpectedEOF
  | TransportError string
  | ErrorString string
  | FormatError
  | Canceled
  | DeadlineExceeded
  | ProcessError string
  | SessionError string error
  | ReadAllError error

text \<open>
  An \<open>io.Reader\<close>: the bytes it will yield, then how it ends (\<open>None\<close>: a clean
  end of file, \<open>Some e\<close>: the read error \<open>e\<close>), and the most bytes one \<open>Read\<close>
  hands over, less one (a \<open>Read\<close> that returns data returns at least one byte).
\<close>

record reader =
  rdata :: string
  rend :: "error option"
  rchunk :: nat

text \<open>\<open>bytes.NewReader\<close>: the slice, a clean end, all of it in one piece.\<close>

definition bytes_NewReader :: "string \<Rightarrow> reader" where
  "bytes_NewReader bs = \<lparr>rdata = bs, rend = None, rchunk = length bs\<rparr>"

definition end_error :: "reader \<Rightarrow> error" where
  "end_error r = (case rend r of None \<Rightarrow> EOF | Some e \<Rightarrow> e)"

section \<open>Formatting of the standard library\<close>

definition digit_char :: "nat \<Rightarrow> char" where
  "digit_char d = char_of (48 + d)"

function format_nat :: "nat \<Rightarrow> string" where
  "format_nat n =
     (if n < 10 then [digit_char n] else format_nat (n div 10) @ [digit_char (n mod 10)])"
  by pat_completeness auto
termination
  by (relation "measure id") auto

declare format_nat.simps [simp del]

text \<open>The \<open>%v\<close> verb on an \<open>int64\<close>: decimal, with a minus sign when negative.\<close>

definition format_int :: "int \<Rightarrow> string" where
  "format_int i =
     (if i < 0 then CHR ''-'' # format_nat (nat (- i)) else format_nat (nat i))"

text \<open>
  \<open>path.Base\<close>: the last element of a slash-separated path, trailing slashes removed;
  \<open>.\<close> for the empty path and \<open>/\<close> for a path of slashes only.
\<close>

definition path_Base :: "string \<Rightarrow> string" where
  "path_Base p =
     (if p = [] then ''.''
      else let q = rev (dropWhile (\<lambda>c. c = CHR ''/'') (rev p));
               b = rev (takeWhile (\<lambda>c. c \<noteq> CHR ''/'') (rev q))
           in if b = [] then ''/'' else b)"

text \<open>
  The upload header, line 245 of the client:
  \<open>fmt.Fprintln(w, "C"+permissions, size, filename)\<close>. \<open>Fprintln\<close> separates its
  operands by one space and ends the line.
\<close>

definition header_line :: "string \<Rightarrow> int \<Rightarrow> string \<Rightarrow> string" where
  "header_line permissions sz filename =
     (CHR ''C'' # permissions) @ [SP] @ format_int sz @ [SP] @ filename @ [NL]"

section \<open>Protocol codec\<close>

datatype status = Success | Warning | Failure | Unrecognized

record Response =
  rtype :: char
  rmsg :: string

text \<open>
  Modelled from the spec: the status of a Response, which the repository's protocol
  file defines and the sources do not hold. The first byte decides: zero is Success, one is
  Warning, two is Failure; any other byte marks a line that is not a standard
  protocol response.
\<close>

definition status_of :: "Response \<Rightarrow> status" where
  "status_of r =
     (if rtype r = CHR 0x00 then Success
      else if rtype r = CHR 0x01 then Warning
      else if rtype r = CHR 0x02 then Failure
      else Unrecognized)"

text \<open>
  Modelled from the spec: \<open>IsFailure\<close>, \<open>NoStandardProtocolType\<close> and \<open>GetMessage\<close>,
  the three accessors of a Response the client calls; the sources hold only the calls.
  A Response signals failure when its status is Failure, whatever its message; the
  marker is set on a line whose first byte is none of the three status bytes.
\<close>

definition IsFailure :: "Response \<Rightarrow> bool" where
  "IsFailure r = (status_of r = Failure)"

definition NoStandardProtocolType :: "Response \<Rightarrow> bool" where
  "NoStandardProtocolType r = (status_of r = Unrecognized)"

definition GetMessage :: "Response \<Rightarrow> string" where
  "GetMessage r = rmsg r"

text \<open>
  Modelled from the spec: \<open>ParseResponse\<close>, absent from the sources. It reads one status
  byte; for Success that is all; otherwise the message is the rest of the line up to
  the newline, which is consumed. A stream that ends first is an I/O error.
\<close>

definition ParseResponse :: "reader \<Rightarrow> error + (Response \<times> reader)" where
  "ParseResponse r =
     (case rdata r of
        [] \<Rightarrow> Inl (end_error r)
      | b # rest \<Rightarrow>
          if b = NUL then Inr (\<lparr>rtype = b, rmsg = []\<rparr>, r\<lparr>rdata := rest\<rparr>)
          else if NL \<in> set rest
          then Inr (\<lparr>rtype = b, rmsg = takeWhile (\<lambda>c. c \<noteq> NL) rest\<rparr>,
                    r\<lparr>rdata := tl (dropWhile (\<lambda>c. c \<noteq> NL) rest)\<rparr>)
          else Inl (end_error (r\<lparr>rdata := []\<rparr>)))"

record FileInfos =
  Permissions :: nat
  Size :: int
  Filename :: string
  Mtime :: "int option"
  Atime :: "int option"

definition is_digit :: "char \<Rightarrow> bool" where
  "is_digit c = (48 \<le> (of_char c :: nat) \<and> (of_char c :: nat) \<le> 57)"

definition is_octal :: "char \<Rightarrow> bool" where
  "is_octal c = (48 \<le> (of_char c :: nat) \<and> (of_char c :: nat) \<le> 55)"

definition digit_val :: "char \<Rightarrow> nat" where
  "digit_val c = of_char c - 48"

text \<open>The number a string of digits denotes in the given base.\<close>

definition digits_value :: "nat \<Rightarrow> string \<Rightarrow> nat" where
  "digits_value base s = foldl (\<lambda>a c. base * a + digit_val c) 0 s"

definition parse_decimal :: "string \<Rightarrow> nat option" where
  "parse_decimal s =
     (if s \<noteq> [] \<and> list_all is_digit s then Some (digits_value 10 s) else None)"

definition parse_octal :: "string \<Rightarrow> nat option" where
  "parse_octal s =
     (if s \<noteq> [] \<and> list_all is_octal s then Some (digits_value 8 s) else None)"

definition parse_integer :: "string \<Rightarrow> int option" where
  "parse_integer s =
     (case s of
        [] \<Rightarrow> None
      | c # ds \<Rightarrow>
          if c = CHR ''-'' then map_option (\<lambda>n. - int n) (parse_decimal ds)
          else map_option int (parse_decimal s))"

text \<open>The field before the first space, and what follows that space.\<close>

definition split_space :: "string \<Rightarrow> (string \<times> string) option" where
  "split_space s =
     (if SP \<in> set s
      then Some (takeWhile (\<lambda>c. c \<noteq> SP) s, tl (dropWhile (\<lambda>c. c \<noteq> SP) s))
      else None)"

text \<open>
  Modelled from the spec: \<open>parseFileInfos\<close>, absent from the sources. The grammar is
  \<open>C<mode-octal> <size-decimal> <name>\<close>; the line is refused when the mode is not an
  octal integer, the size is not a non-negative decimal integer, or the name is
  missing; the name must not include a slash. The times are absent until merged.
\<close>

definition parseFileInfos :: "string \<Rightarrow> error + FileInfos" where
  "parseFileInfos line =
     (case line of
        [] \<Rightarrow> Inl FormatError
      | c # rest \<Rightarrow>
          if c \<noteq> CHR ''C'' then Inl FormatError
          else (case split_space rest of
                  None \<Rightarrow> Inl FormatError
                | Some (m, rest') \<Rightarrow>
                    (case split_space rest' of
                       None \<Rightarrow> Inl FormatError
                     | Some (sz, name) \<Rightarrow>
                         (case parse_octal m of
                            None \<Rightarrow> Inl FormatError
                          | Some mode \<Rightarrow>
                              (case parse_decimal sz of
                                 None \<Rightarrow> Inl FormatError
                               | Some n \<Rightarrow>
                                   if name = [] \<or> CHR ''/'' \<in> set name
                                   then Inl FormatError
                                   else Inr \<lparr>Permissions = mode, Size = int n,
                                             Filename = name, Mtime = None,
                                             Atime = None\<rparr>)))))"

text \<open>The method of the client's calls: the line is the type byte and the message.\<close>

definition ParseFileInfos :: "Response \<Rightarrow> error + FileInfos" where
  "ParseFileInfos res = parseFileInfos (rtype res # rmsg res)"

section \<open>Sessions, streams and the event trace\<close>

text \<open>
  What one run does to the outside world, in order: the session it opens, the remote
  command it starts (flags and remote path), each \<open>Write\<close> the session's input
  stream accepts, each \<open>Write\<close> the destination writer accepts, each call of the
  progress callback. Closing a stream or the session is not traced.
\<close>

datatype event =
    NewSession
  | Start string string
  | WriteIn string
  | WriteSink string
  | Progress real

text \<open>
  The collaborators of one run: what each session call returns, the bytes the peer
  sends on the session's output, how many bytes the session's input and the
  destination writer accept before a \<open>Write\<close> fails (\<open>None\<close>: no limit), and whether
  the progress display's \<open>Run\<close> fails.
\<close>

record world =
  new_session_err :: "error option"
  stdout_pipe_err :: "error option"
  stdin_pipe_err :: "error option"
  start_err :: "error option"
  wait_err :: "error option"
  peer_out :: reader
  in_cap :: "nat option"
  sink_cap :: "nat option"
  run_fails :: bool

record st =
  trace :: "event list"
  out :: reader
  in_left :: "nat option"
  sink_left :: "nat option"

definition init_st :: "world \<Rightarrow> st" where
  "init_st w = \<lparr>trace = [], out = peer_out w, in_left = in_cap w, sink_left = sink_cap w\<rparr>"

definition log_event :: "event \<Rightarrow> st \<Rightarrow> st" where
  "log_event ev s = s\<lparr>trace := trace s @ [ev]\<rparr>"

text \<open>The bytes a writer with \<open>cap\<close> bytes of room takes of \<open>bs\<close>, the room left, success.\<close>

definition accept :: "nat option \<Rightarrow> string \<Rightarrow> string \<times> nat option \<times> bool" where
  "accept cap bs =
     (case cap of
        None \<Rightarrow> (bs, None, True)
      | Some c \<Rightarrow>
          if length bs \<le> c then (bs, Some (c - length bs), True)
          else (take c bs, Some 0, False))"

definition write_error :: error where
  "write_error = TransportError ''write''"

definition write_in :: "string \<Rightarrow> st \<Rightarrow> error option \<times> st" where
  "write_in bs s =
     (case accept (in_left s) bs of
        (acc, left, ok) \<Rightarrow>
          (if ok then None else Some write_error,
           s\<lparr>trace := trace s @ [WriteIn acc], in_left := left\<rparr>))"

definition write_sink :: "string \<Rightarrow> st \<Rightarrow> error option \<times> st" where
  "write_sink bs s =
     (case accept (sink_left s) bs of
        (acc, left, ok) \<Rightarrow>
          (if ok then None else Some write_error,
           s\<lparr>trace := trace s @ [WriteSink acc], sink_left := left\<rparr>))"

fun bytes_in :: "event list \<Rightarrow> string" where
  "bytes_in [] = []"
| "bytes_in (WriteIn bs # evs) = bs @ bytes_in evs"
| "bytes_in (_ # evs) = bytes_in evs"

fun bytes_sink :: "event list \<Rightarrow> string" where
  "bytes_sink [] = []"
| "bytes_sink (WriteSink bs # evs) = bs @ bytes_sink evs"
| "bytes_sink (_ # evs) = bytes_sink evs"

text \<open>The pieces a reader hands over, one per \<open>Read\<close>.\<close>

function chunks :: "nat \<Rightarrow> 'a list \<Rightarrow> 'a list list" where
  "chunks k xs = (if xs = [] then [] else take (Suc k) xs # chunks k (drop (Suc k) xs))"
  by pat_completeness auto
termination
  by (relation "measure (\<lambda>(k, xs). length xs)") auto

declare chunks.simps [simp del]

fun write_chunks ::
  "(string \<Rightarrow> st \<Rightarrow> error option \<times> st) \<Rightarrow> string list \<Rightarrow> st \<Rightarrow> error option \<times> st" where
  "write_chunks wr [] s = (None, s)"
| "write_chunks wr (c # cs) s =
     (case wr c s of
        (Some e, s') \<Rightarrow> (Some e, s')
      | (None, s') \<Rightarrow> write_chunks wr cs s')"

text \<open>
  \<open>io.Copy(w, r)\<close> of the standard library, onto the session's input: every piece
  read is written, until the reader ends; a clean end is no error, a read error is
  returned, and so is a write error, which stops the copy.
\<close>

definition io_Copy :: "reader \<Rightarrow> st \<Rightarrow> error option \<times> st" where
  "io_Copy r s =
     (case write_chunks write_in (chunks (rchunk r) (rdata r)) s of
        (Some e, s') \<Rightarrow> (Some e, s')
      | (None, s') \<Rightarrow> (rend r, s'))"

text \<open>\<open>io.ReadAll\<close>: everything up to a clean end, or the read error.\<close>

definition io_ReadAll :: "reader \<Rightarrow> error + string" where
  "io_ReadAll r = (case rend r of None \<Rightarrow> Inr (rdata r) | Some e \<Rightarrow> Inl e)"

text \<open>
  Modelled from the spec: \<open>Ack\<close>, absent from the sources: it writes the single zero byte to
  the session's input.
\<close>

definition Ack :: "st \<Rightarrow> error option \<times> st" where
  "Ack s = write_in [NUL] s"

text \<open>\<open>checkResponse\<close>, lines 171 to 183, on the session's output.\<close>

definition checkResponse :: "st \<Rightarrow> error option \<times> st" where
  "checkResponse s =
     (case ParseResponse (out s) of
        Inl e \<Rightarrow> (Some e, s)
      | Inr (response, r') \<Rightarrow>
          (if IsFailure response then Some (ErrorString (GetMessage response)) else None,
           s\<lparr>out := r'\<rparr>))"

section \<open>Upload\<close>

type_synonym PassThru = "reader \<Rightarrow> int \<Rightarrow> reader"

definition apply_passThru :: "PassThru option \<Rightarrow> reader \<Rightarrow> int \<Rightarrow> reader" where
  "apply_passThru passThru r n = (case passThru of None \<Rightarrow> r | Some f \<Rightarrow> f r n)"

text \<open>
  The protocol unit of \<open>CopyPassThru\<close>, lines 241 to 272: the error it sends on the
  error channel (\<open>None\<close>: it sends nothing) and the state it leaves.
\<close>

definition upload_unit :: "reader \<Rightarrow> string \<Rightarrow> int \<Rightarrow> string \<Rightarrow> st \<Rightarrow> error option \<times> st" where
  "upload_unit r permissions sz filename s0 =
     (case write_in (header_line permissions sz filename) s0 of
        (Some e, s1) \<Rightarrow> (Some e, s1)
      | (None, s1) \<Rightarrow>
          (case checkResponse s1 of
             (Some e, s2) \<Rightarrow> (Some e, s2)
           | (None, s2) \<Rightarrow>
               (case io_Copy r s2 of
                  (Some e, s3) \<Rightarrow> (Some e, s3)
                | (None, s3) \<Rightarrow>
                    (case write_in [NUL] s3 of
                       (Some e, s4) \<Rightarrow> (Some e, s4)
                     | (None, s4) \<Rightarrow> checkResponse s4))))"

text \<open>
  What the scheduler decided in one run. \<open>cancelled\<close>: the context (the caller's,
  cut short by the client's \<open>Timeout\<close> when that is positive) was done before the
  wait group, so that \<open>wait\<close>, lines 153 to 167, returned its error. \<open>exit_first\<close>: of the two units of an
  upload, the one waiting for the process to exit sent its error first.
  \<open>copied_before_ack\<close>: how many pieces the detached body copy of a progress download
  had handled when the protocol unit wrote its final acknowledgment.
\<close>

record sched =
  cancelled :: "error option"
  exit_first :: bool
  copied_before_ack :: nat

text \<open>The first error of the closed error channel, lines 299 to 305.\<close>

fun first_error :: "error option list \<Rightarrow> error option" where
  "first_error [] = None"
| "first_error (Some e # _) = Some e"
| "first_error (None # es) = first_error es"

text \<open>
  \<open>CopyPassThru\<close>, lines 198 to 306: the error returned and the state of the world.
  The state holds everything the protocol unit does when it runs to its end; when
  the wait is cancelled the call returns while the unit may have done only a part.
\<close>

definition CopyPassThru ::
  "world \<Rightarrow> sched \<Rightarrow> reader \<Rightarrow> string \<Rightarrow> string \<Rightarrow> int \<Rightarrow> PassThru option
     \<Rightarrow> error option \<times> st" where
  "CopyPassThru w sc r remotePath permissions sz passThru =
     (case new_session_err w of
        Some e \<Rightarrow> (Some (SessionError ''to'' e), init_st w)
      | None \<Rightarrow>
          let s0 = log_event NewSession (init_st w) in
          (case stdout_pipe_err w of
             Some e \<Rightarrow> (Some e, s0)
           | None \<Rightarrow>
               (case stdin_pipe_err w of
                  Some e \<Rightarrow> (Some e, s0)
                | None \<Rightarrow>
                    let r' = apply_passThru passThru r sz;
                        filename = path_Base remotePath
                    in (case start_err w of
                          Some e \<Rightarrow> (Some e, s0)
                        | None \<Rightarrow>
                            (case upload_unit r' permissions sz filename
                                    (log_event (Start ''-qt'' remotePath) s0) of
                               (errA, s) \<Rightarrow>
                                 (case cancelled sc of
                                    Some e \<Rightarrow> (Some e, s)
                                  | None \<Rightarrow>
                                      (first_error
                                         (if exit_first sc then [wait_err w, errA]
                                          else [errA, wait_err w]), s)))))))"

definition Copy :: "world \<Rightarrow> sched \<Rightarrow> reader \<Rightarrow> string \<Rightarrow> string \<Rightarrow> int \<Rightarrow> error option \<times> st" where
  "Copy w sc r remotePath permissions sz = CopyPassThru w sc r remotePath permissions sz None"

text \<open>\<open>CopyFilePassThru\<close>, lines 128 to 149, and \<open>CopyFile\<close>.\<close>

definition CopyFilePassThru ::
  "world \<Rightarrow> sched \<Rightarrow> reader \<Rightarrow> string \<Rightarrow> string \<Rightarrow> PassThru option \<Rightarrow> error option \<times> st" where
  "CopyFilePassThru w sc fileReader remotePath permissions passThru =
     (case io_ReadAll fileReader of
        Inl e \<Rightarrow> (Some (ReadAllError e), init_st w)
      | Inr contentsBytes \<Rightarrow>
          CopyPassThru w sc (bytes_NewReader contentsBytes) remotePath permissions
            (int (length contentsBytes)) passThru)"

definition CopyFile :: "world \<Rightarrow> sched \<Rightarrow> reader \<Rightarrow> string \<Rightarrow> string \<Rightarrow> error option \<times> st" where
  "CopyFile w sc fileReader remotePath permissions =
     CopyFilePassThru w sc fileReader remotePath permissions None"

section \<open>Download\<close>

text \<open>
  Modelled from the spec: \<open>CopyN\<close>, absent from the sources: it copies exactly the given number
  of bytes from the reader to the destination writer, piece by piece; a reader that
  ends before that many bytes, or a failing write, is an error.
\<close>

definition CopyN :: "reader \<Rightarrow> int \<Rightarrow> st \<Rightarrow> error option \<times> st" where
  "CopyN r n s =
     (case write_chunks write_sink (chunks (rchunk r) (take (nat n) (rdata r))) s of
        (Some e, s') \<Rightarrow> (Some e, s')
      | (None, s') \<Rightarrow> (if length (rdata r) < nat n then Some (end_error r) else None, s'))"

record FileTime =
  ft_mtime :: int
  ft_atime :: int

text \<open>
  Modelled from the spec: \<open>parseFileTime\<close> and \<open>Update\<close>, absent from the sources. The grammar
  is \<open>T<mtime> <unused> <atime> <unused>\<close>, four decimal integers; the line is refused
  when a field is not an integer. \<open>Update\<close> merges the two times into the file infos.
\<close>

definition parseFileTime :: "string \<Rightarrow> error + FileTime" where
  "parseFileTime line =
     (case line of
        [] \<Rightarrow> Inl FormatError
      | c # rest \<Rightarrow>
          if c \<noteq> CHR ''T'' then Inl FormatError
          else (case split_space rest of
                  None \<Rightarrow> Inl FormatError
                | Some (m, r1) \<Rightarrow>
                    (case split_space r1 of
                       None \<Rightarrow> Inl FormatError
                     | Some (u1, r2) \<Rightarrow>
                         (case split_space r2 of
                            None \<Rightarrow> Inl FormatError
                          | Some (a, u2) \<Rightarrow>
                              (case (parse_integer m, parse_integer u1,
                                     parse_integer a, parse_integer u2) of
                                 (Some mtime, Some _, Some atime, Some _) \<Rightarrow>
                                   Inr \<lparr>ft_mtime = mtime, ft_atime = atime\<rparr>
                               | _ \<Rightarrow> Inl FormatError)))))"

definition ParseFileTime :: "Response \<Rightarrow> error + FileTime" where
  "ParseFileTime res = parseFileTime (rtype res # rmsg res)"

definition Update :: "FileInfos \<Rightarrow> FileTime \<Rightarrow> FileInfos" where
  "Update infos t = infos\<lparr>Mtime := Some (ft_mtime t), Atime := Some (ft_atime t)\<rparr>"

text \<open>
  A download unit sends each error on the error channel and, when it ends, the
  deferred function sends the unit's \<open>err\<close> variable once more (\<open>None\<close> is \<open>nil\<close>).
  \<open>failed e\<close> is the common exit \<open>errCh <- err; return\<close> after \<open>err\<close> was assigned.
\<close>

definition failed :: "error \<Rightarrow> st \<Rightarrow> (error option list \<times> st) + 'a" where
  "failed e s = Inl ([Some e, Some e], s)"

text \<open>
  The head of the plain and the progress download, lines 345 to 390 and 498 to 543:
  up to the acknowledgment of the header.
\<close>

definition download_header ::
  "world \<Rightarrow> string \<Rightarrow> st \<Rightarrow> (error option list \<times> st) + (FileInfos \<times> st)" where
  "download_header w remotePath s0 =
     (case stdout_pipe_err w of
        Some e \<Rightarrow> failed e s0
      | None \<Rightarrow>
     (case stdin_pipe_err w of
        Some e \<Rightarrow> failed e s0
      | None \<Rightarrow>
     (case start_err w of
        Some e \<Rightarrow> failed e s0
      | None \<Rightarrow>
     (case Ack (log_event (Start ''-f'' remotePath) s0) of
        (Some e, s1) \<Rightarrow> failed e s1
      | (None, s1) \<Rightarrow>
     (case ParseResponse (out s1) of
        Inl e \<Rightarrow> failed e s1
      | Inr (res, r') \<Rightarrow>
          if IsFailure res
          then Inl ([Some (ErrorString (GetMessage res)), None], s1\<lparr>out := r'\<rparr>)
          else
     (case ParseFileInfos res of
        Inl e \<Rightarrow> failed e (s1\<lparr>out := r'\<rparr>)
      | Inr infos \<Rightarrow>
     (case Ack (s1\<lparr>out := r'\<rparr>) of
        (Some e, s2) \<Rightarrow> failed e s2
      | (None, s2) \<Rightarrow> Inr (infos, s2))))))))"

text \<open>
  The unit of \<open>CopyFromRemotePassThru\<close>, lines 334 to 413: what it sends on the error
  channel, in order, and the state it leaves.
\<close>

definition download_unit ::
  "world \<Rightarrow> string \<Rightarrow> PassThru option \<Rightarrow> st \<Rightarrow> error option list \<times> st" where
  "download_unit w remotePath passThru s0 =
     (case download_header w remotePath s0 of
        Inl x \<Rightarrow> x
      | Inr (infos, s2) \<Rightarrow>
          (case CopyN (apply_passThru passThru (out s2) (Size infos)) (Size infos) s2 of
             (Some e, s3) \<Rightarrow> ([Some e, Some e], s3)
           | (None, s3) \<Rightarrow>
               (case Ack s3 of
                  (Some e, s4) \<Rightarrow> ([Some e, Some e], s4)
                | (None, s4) \<Rightarrow>
                    (case wait_err w of
                       Some e \<Rightarrow> ([Some e, Some e], s4)
                     | None \<Rightarrow> ([None], s4)))))"

text \<open>The receive \<open>finalErr := <-errCh\<close>: the first value sent.\<close>

definition receive :: "error option list \<Rightarrow> error option" where
  "receive ch = (case ch of [] \<Rightarrow> None | e # _ \<Rightarrow> e)"

text \<open>\<open>CopyFromRemotePassThru\<close>, lines 318 to 427.\<close>

definition CopyFromRemotePassThru ::
  "world \<Rightarrow> sched \<Rightarrow> string \<Rightarrow> PassThru option \<Rightarrow> error option \<times> st" where
  "CopyFromRemotePassThru w sc remotePath passThru =
     (case new_session_err w of
        Some e \<Rightarrow> (Some (SessionError ''from'' e), init_st w)
      | None \<Rightarrow>
          (case download_unit w remotePath passThru (log_event NewSession (init_st w)) of
             (ch, s) \<Rightarrow>
               (case cancelled sc of
                  Some e \<Rightarrow> (Some e, s)
                | None \<Rightarrow> (receive ch, s))))"

section \<open>Progress instrumentation\<close>

text \<open>
  The \<open>progressWriter\<close> of lines 431 to 437. Its writer and reader are the arguments
  of \<open>Start\<close>; \<open>pw_onProgress\<close> tells whether the callback is set. \<open>downloaded\<close> is a Go
  \<open>int\<close>, 64 bits wide, so that the addition wraps. The callback's argument is the
  quotient of the two counts, taken as a real number.
\<close>

record progressWriter =
  pw_total :: int
  pw_downloaded :: int
  pw_onProgress :: bool

definition wrap64 :: "int \<Rightarrow> int" where
  "wrap64 x = (x + 2 ^ 63) mod 2 ^ 64 - 2 ^ 63"

text \<open>
  \<open>Write\<close>, lines 463 to 469: the writer after the call and the arguments the callback
  was called with (none or one). The call returns \<open>len(p)\<close> and no error.
\<close>

definition pw_Write :: "progressWriter \<Rightarrow> string \<Rightarrow> progressWriter \<times> real list" where
  "pw_Write pw p =
     (let d = wrap64 (pw_downloaded pw + int (length p)) in
      (pw\<lparr>pw_downloaded := d\<rparr>,
       if pw_total pw > 0 \<and> pw_onProgress pw
       then [real_of_int d / real_of_int (pw_total pw)] else []))"

text \<open>Successive calls of \<open>Write\<close>: the count after each call, and the callback's arguments.\<close>

fun pw_Writes :: "progressWriter \<Rightarrow> string list \<Rightarrow> int list \<times> real list" where
  "pw_Writes pw [] = ([], [])"
| "pw_Writes pw (p # ps) =
     (case pw_Write pw p of
        (pw', calls) \<Rightarrow>
          (case pw_Writes pw' ps of
             (ds, calls') \<Rightarrow> (pw_downloaded pw' # ds, calls @ calls')))"

text \<open>
  The copy of \<open>Start\<close>, line 440, \<open>CopyN(pw.file, io.TeeReader(pw.reader, pw), pw.total)\<close>,
  over the pieces read: the tee hands each piece to \<open>Write\<close>, whose callback the
  downloads set to send the ratio to the display, before the piece is written.
\<close>

fun tee_chunks ::
  "progressWriter \<Rightarrow> string list \<Rightarrow> st \<Rightarrow> error option \<times> progressWriter \<times> st" where
  "tee_chunks pw [] s = (None, pw, s)"
| "tee_chunks pw (c # cs) s =
     (case pw_Write pw c of
        (pw', calls) \<Rightarrow>
          (case write_sink c (s\<lparr>trace := trace s @ map Progress calls\<rparr>) of
             (Some e, s') \<Rightarrow> (Some e, pw', s')
           | (None, s') \<Rightarrow> tee_chunks pw' cs s'))"

definition short_read :: "reader \<Rightarrow> int \<Rightarrow> error option" where
  "short_read r n = (if length (rdata r) < nat n then Some (end_error r) else None)"

text \<open>\<open>Start\<close>, lines 439 to 461, run on its own: the error it returns.\<close>

definition pw_Start :: "progressWriter \<Rightarrow> reader \<Rightarrow> st \<Rightarrow> error option \<times> progressWriter \<times> st" where
  "pw_Start pw r s =
     (case tee_chunks pw (chunks (rchunk r) (take (nat (pw_total pw)) (rdata r))) s of
        (Some e, pw', s') \<Rightarrow> (Some e, pw', s')
      | (None, pw', s') \<Rightarrow> (short_read r (pw_total pw), pw', s'))"

datatype unit_result = Sent "error option list" | OsExit

datatype call_result = Return "error option" | ProcessExit

text \<open>
  The body of the two progress downloads, lines 545 to 587 and 703 to 745.
  \<open>go pw.Start()\<close> detaches the copy and drops what it returns, and the test of
  \<open>err\<close> that follows reads the \<open>nil\<close> left by the last acknowledgment. The unit goes
  on to write the final acknowledgment while the copy runs: the scheduler decides
  how many pieces the copy has handled by then, and the copy handles the others
  afterwards. Then the display runs (a failure ends the process) and the unit
  waits for the remote process.
\<close>

definition progress_body ::
  "world \<Rightarrow> sched \<Rightarrow> PassThru option \<Rightarrow> FileInfos \<Rightarrow> st \<Rightarrow> unit_result \<times> st" where
  "progress_body w sc passThru infos s =
     (let r = apply_passThru passThru (out s) (Size infos);
          pw = \<lparr>pw_total = Size infos, pw_downloaded = 0, pw_onProgress = True\<rparr>;
          chs = chunks (rchunk r) (take (nat (pw_total pw)) (rdata r));
          k = copied_before_ack sc
      in (case tee_chunks pw (take k chs) s of
            (e1, pw1, s1) \<Rightarrow>
              (case Ack s1 of
                 (ackErr, s2) \<Rightarrow>
                   (let s3 = (case e1 of
                                Some e \<Rightarrow> s2
                              | None \<Rightarrow> snd (snd (tee_chunks pw1 (drop k chs) s2)))
                    in (case ackErr of
                          Some e \<Rightarrow> (Sent [Some e, Some e], s3)
                        | None \<Rightarrow>
                            if run_fails w then (OsExit, s3)
                            else (case wait_err w of
                                    Some e \<Rightarrow> (Sent [Some e, Some e], s3)
                                  | None \<Rightarrow> (Sent [None], s3)))))))"

text \<open>
  The end of the two progress downloads, lines 597 to 602 and 755 to 760: the
  context's error when the wait was cancelled; otherwise the unit has ended, by
  ending the process or by leaving its errors on the channel.
\<close>

definition finish :: "sched \<Rightarrow> unit_result \<times> st \<Rightarrow> call_result \<times> st" where
  "finish sc x =
     (case x of
        (u, s) \<Rightarrow>
          (case cancelled sc of
             Some e \<Rightarrow> (Return (Some e), s)
           | None \<Rightarrow>
               (case u of
                  OsExit \<Rightarrow> (ProcessExit, s)
                | Sent ch \<Rightarrow> (Return (receive ch), s))))"

text \<open>\<open>CopyFromRemoteProgressPassThru\<close>, lines 471 to 603.\<close>

definition CopyFromRemoteProgressPassThru ::
  "world \<Rightarrow> sched \<Rightarrow> string \<Rightarrow> PassThru option \<Rightarrow> call_result \<times> st" where
  "CopyFromRemoteProgressPassThru w sc remotePath passThru =
     (case new_session_err w of
        Some e \<Rightarrow> (Return (Some (SessionError ''from'' e)), init_st w)
      | None \<Rightarrow>
          finish sc
            (case download_header w remotePath (log_event NewSession (init_st w)) of
               Inl (ch, s) \<Rightarrow> (Sent ch, s)
             | Inr (infos, s) \<Rightarrow> progress_body w sc passThru infos s))"

text \<open>
  The head of the metadata-preserving download, lines 632 to 701: the time line,
  the header line, and the merge of the two.
\<close>

definition preserve_header ::
  "world \<Rightarrow> string \<Rightarrow> st \<Rightarrow> (error option list \<times> st) + (FileInfos \<times> st)" where
  "preserve_header w remotePath s0 =
     (case stdout_pipe_err w of
        Some e \<Rightarrow> failed e s0
      | None \<Rightarrow>
     (case stdin_pipe_err w of
        Some e \<Rightarrow> failed e s0
      | None \<Rightarrow>
     (case start_err w of
        Some e \<Rightarrow> failed e s0
      | None \<Rightarrow>
     (case Ack (log_event (Start ''-f -p'' remotePath) s0) of
        (Some e, s1) \<Rightarrow> failed e s1
      | (None, s1) \<Rightarrow>
     (case ParseResponse (out s1) of
        Inl e \<Rightarrow> failed e s1
      | Inr (res, r1) \<Rightarrow>
          if IsFailure res \<and> NoStandardProtocolType res
          then Inl ([Some (ErrorString (GetMessage res)), None], s1\<lparr>out := r1\<rparr>)
          else
     (case ParseFileTime res of
        Inl e \<Rightarrow> failed e (s1\<lparr>out := r1\<rparr>)
      | Inr timeInfo \<Rightarrow>
     (case Ack (s1\<lparr>out := r1\<rparr>) of
        (Some e, s2) \<Rightarrow> failed e s2
      | (None, s2) \<Rightarrow>
     (case ParseResponse (out s2) of
        Inl e \<Rightarrow> failed e s2
      | Inr (res2, r2) \<Rightarrow>
          if IsFailure res2 \<and> NoStandardProtocolType res2
          then Inl ([Some (ErrorString (GetMessage res2)), None], s2\<lparr>out := r2\<rparr>)
          else
     (case ParseFileInfos res2 of
        Inl e \<Rightarrow> failed e (s2\<lparr>out := r2\<rparr>)
      | Inr infos \<Rightarrow>
     (case Ack (s2\<lparr>out := r2\<rparr>) of
        (Some e, s3) \<Rightarrow> failed e s3
      | (None, s3) \<Rightarrow> Inr (Update infos timeInfo, s3)))))))))))"

text \<open>\<open>CopyFromRemotePreserveProgressPassThru\<close>, lines 605 to 761.\<close>

definition CopyFromRemotePreserveProgressPassThru ::
  "world \<Rightarrow> sched \<Rightarrow> string \<Rightarrow> PassThru option \<Rightarrow> call_result \<times> st" where
  "CopyFromRemotePreserveProgressPassThru w sc remotePath passThru =
     (case new_session_err w of
        Some e \<Rightarrow> (Return (Some (SessionError ''from'' e)), init_st w)
      | None \<Rightarrow>
          finish sc
            (case preserve_header w remotePath (log_event NewSession (init_st w)) of
               Inl (ch, s) \<Rightarrow> (Sent ch, s)
             | Inr (infos, s) \<Rightarrow> progress_body w sc passThru infos s))"

section \<open>Predicates of the statements\<close>

text \<open>
  A valid upload header: the permissions are a non-empty string of octal digits, the
  size is not negative, the name is a base name (not empty, no slash) and, the
  protocol being line-oriented, holds no newline.
\<close>

definition valid_header :: "string \<Rightarrow> int \<Rightarrow> string \<Rightarrow> bool" where
  "valid_header permissions sz filename =
     (permissions \<noteq> [] \<and> list_all is_octal permissions \<and> 0 \<le> sz \<and>
      filename \<noteq> [] \<and> CHR ''/'' \<notin> set filename \<and> NL \<notin> set filename)"

text \<open>The session is created, hands out both pipes and starts the remote command.\<close>

definition session_ok :: "world \<Rightarrow> bool" where
  "session_ok w =
     (new_session_err w = None \<and> stdout_pipe_err w = None \<and>
      stdin_pipe_err w = None \<and> start_err w = None)"

text \<open>A writer with \<open>cap\<close> bytes of room takes \<open>n\<close> bytes.\<close>

definition fits :: "nat option \<Rightarrow> nat \<Rightarrow> bool" where
  "fits cap n = (case cap of None \<Rightarrow> True | Some c \<Rightarrow> n \<le> c)"

text \<open>
  A world in which no collaborator fails and the peer sends the given bytes, two at
  a time; and a run that is not cancelled, in which the protocol unit of an upload
  sends its error first and the detached copy of a progress download has handled
  nothing yet when the final acknowledgment is written.
\<close>

definition calm :: "string \<Rightarrow> world" where
  "calm bs =
     \<lparr>new_session_err = None, stdout_pipe_err = None, stdin_pipe_err = None,
      start_err = None, wait_err = None,
      peer_out = \<lparr>rdata = bs, rend = None, rchunk = 1\<rparr>,
      in_cap = None, sink_cap = None, run_fails = False\<rparr>"

definition sched0 :: sched where
  "sched0 = \<lparr>cancelled = None, exit_first = False, copied_before_ack = 0\<rparr>"

text \<open>
  The text of an error, as \<open>Error()\<close> gives it. The text of a format error is the
  parser's, which the sources do not hold; it is left empty here.
\<close>

fun error_message :: "error \<Rightarrow> string" where
  "error_message EOF = ''EOF''"
| "error_message UnexpectedEOF = ''unexpected EOF''"
| "error_message (TransportError m) = m"
| "error_message (ErrorString m) = m"
| "error_message FormatError = []"
| "error_message Canceled = ''context canceled''"
| "error_message DeadlineExceeded = ''context deadline exceeded''"
| "error_message (ProcessError m) = m"
| "error_message (SessionError d e) =
     ''Error creating ssh session in copy '' @ d @ '' remote: '' @ error_message e"
| "error_message (ReadAllError e) =
     ''failed to read all data from reader: '' @ error_message e"

section \<open>Digits and fields\<close>

lemma of_char_digit_char: "d < 10 \<Longrightarrow> (of_char (digit_char d) :: nat) = 48 + d"
  by (simp add: digit_char_def)

lemma is_digit_digit_char: "d < 10 \<Longrightarrow> is_digit (digit_char d)"
  by (simp add: is_digit_def of_char_digit_char)

lemma digit_val_digit_char: "d < 10 \<Longrightarrow> digit_val (digit_char d) = d"
  by (simp add: digit_val_def of_char_digit_char)

lemma format_nat_digits: "list_all is_digit (format_nat n)"
proof (induction n rule: format_nat.induct)
  case (1 n)
  show ?case
  proof (cases "n < 10")
    case True
    then show ?thesis by (subst format_nat.simps) (simp add: is_digit_digit_char)
  next
    case False
    with 1 have "list_all is_digit (format_nat (n div 10))" by simp
    moreover have "is_digit (digit_char (n mod 10))" by (simp add: is_digit_digit_char)
    ultimately show ?thesis using False by (subst format_nat.simps) simp
  qed
qed

lemma format_nat_nonempty: "format_nat n \<noteq> []"
  by (subst format_nat.simps) simp

lemma digits_value_snoc: "digits_value b (s @ [c]) = b * digits_value b s + digit_val c"
  by (simp add: digits_value_def)

lemma digits_value_format_nat: "digits_value 10 (format_nat n) = n"
proof (induction n rule: format_nat.induct)
  case (1 n)
  show ?case
  proof (cases "n < 10")
    case True
    then show ?thesis
      by (subst format_nat.simps) (simp add: digits_value_def digit_val_digit_char)
  next
    case False
    with 1 have ih: "digits_value 10 (format_nat (n div 10)) = n div 10" by simp
    have "digits_value 10 (format_nat n) = 10 * (n div 10) + n mod 10"
      using False ih
      by (subst format_nat.simps) (simp add: digits_value_snoc digit_val_digit_char)
    then show ?thesis by simp
  qed
qed

lemma parse_decimal_format_nat: "parse_decimal (format_nat n) = Some n"
  by (simp add: parse_decimal_def format_nat_digits format_nat_nonempty
      digits_value_format_nat)

lemma digit_not_SP: "is_digit c \<Longrightarrow> c \<noteq> SP"
  by (auto simp: is_digit_def SP_def)

lemma digit_not_NL: "is_digit c \<Longrightarrow> c \<noteq> NL"
  by (auto simp: is_digit_def NL_def)

lemma octal_is_digit: "is_octal c \<Longrightarrow> is_digit c"
  by (simp add: is_octal_def is_digit_def)

lemma digits_no_SP: "list_all is_digit s \<Longrightarrow> SP \<notin> set s"
  by (auto simp: list_all_iff dest: digit_not_SP)

lemma digits_no_NL: "list_all is_digit s \<Longrightarrow> NL \<notin> set s"
  by (auto simp: list_all_iff dest: digit_not_NL)

lemma octals_digits: "list_all is_octal s \<Longrightarrow> list_all is_digit s"
  by (auto simp: list_all_iff dest: octal_is_digit)

lemma takeWhile_until: "x \<notin> set a \<Longrightarrow> takeWhile (\<lambda>c. c \<noteq> x) (a @ x # b) = a"
  by (induction a) auto

lemma dropWhile_until: "x \<notin> set a \<Longrightarrow> tl (dropWhile (\<lambda>c. c \<noteq> x) (a @ x # b)) = b"
  by (induction a) auto

lemma split_space_field: "SP \<notin> set a \<Longrightarrow> split_space (a @ SP # b) = Some (a, b)"
  by (simp add: split_space_def takeWhile_until dropWhile_until)

lemma control_bytes_differ: "SP \<noteq> NL" "CHR ''C'' \<noteq> NUL"
  by (simp_all add: SP_def NL_def NUL_def)

lemma format_int_nonneg: "0 \<le> sz \<Longrightarrow> format_int sz = format_nat (nat sz)"
  by (simp add: format_int_def)

section \<open>The upload header round-trips\<close>

lemma parseFileInfos_header:
  assumes "valid_header permissions sz filename"
  shows "parseFileInfos (CHR ''C'' # permissions @ SP # format_int sz @ SP # filename) =
         Inr \<lparr>Permissions = digits_value 8 permissions, Size = sz, Filename = filename,
              Mtime = None, Atime = None\<rparr>"
proof -
  from assms have p: "permissions \<noteq> []" "list_all is_octal permissions" and sz: "0 \<le> sz"
    and f: "filename \<noteq> []" "CHR ''/'' \<notin> set filename"
    by (simp_all add: valid_header_def)
  note fi = format_int_nonneg [OF sz]
  have 1: "split_space (permissions @ SP # format_int sz @ SP # filename) =
           Some (permissions, format_int sz @ SP # filename)"
    using p by (intro split_space_field digits_no_SP octals_digits)
  have 2: "split_space (format_int sz @ SP # filename) = Some (format_int sz, filename)"
    unfolding fi by (intro split_space_field digits_no_SP format_nat_digits)
  have 3: "parse_octal permissions = Some (digits_value 8 permissions)"
    using p by (simp add: parse_octal_def)
  have 4: "parse_decimal (format_int sz) = Some (nat sz)"
    unfolding fi by (rule parse_decimal_format_nat)
  show ?thesis
    using f sz by (simp add: parseFileInfos_def 1 2 3 4)
qed

text \<open>
  C7. For every valid triple of permissions, size and name, the header line the
  upload writes, read back from a stream by \<open>ParseResponse\<close> and parsed by
  \<open>ParseFileInfos\<close>, gives the same mode (the number the octal permissions denote),
  the same size and the same name, and leaves the stream right after the line.
\<close>

theorem header_roundtrip:
  assumes "valid_header permissions sz filename"
  shows "\<exists>res. ParseResponse (r\<lparr>rdata := header_line permissions sz filename @ rest\<rparr>) =
               Inr (res, r\<lparr>rdata := rest\<rparr>) \<and>
             ParseFileInfos res =
               Inr \<lparr>Permissions = digits_value 8 permissions, Size = sz, Filename = filename,
                    Mtime = None, Atime = None\<rparr>"
proof -
  let ?line = "permissions @ SP # format_int sz @ SP # filename"
  from assms have p: "list_all is_octal permissions" and sz: "0 \<le> sz"
    and f: "NL \<notin> set filename"
    by (simp_all add: valid_header_def)
  note fi = format_int_nonneg [OF sz]
  have nl: "NL \<notin> set ?line"
    using f digits_no_NL [OF octals_digits [OF p]]
      digits_no_NL [OF format_nat_digits, of "nat sz"] control_bytes_differ
    by (auto simp: fi)
  have hl: "header_line permissions sz filename @ rest = CHR ''C'' # (?line @ NL # rest)"
    by (simp add: header_line_def)
  have "ParseResponse (r\<lparr>rdata := header_line permissions sz filename @ rest\<rparr>) =
        Inr (\<lparr>rtype = CHR ''C'', rmsg = ?line\<rparr>, r\<lparr>rdata := rest\<rparr>)"
    unfolding hl ParseResponse_def
    using takeWhile_until [OF nl] dropWhile_until [OF nl] control_bytes_differ
    by simp
  moreover have "ParseFileInfos \<lparr>rtype = CHR ''C'', rmsg = ?line\<rparr> =
        Inr \<lparr>Permissions = digits_value 8 permissions, Size = sz, Filename = filename,
             Mtime = None, Atime = None\<rparr>"
    using parseFileInfos_header [OF assms] by (simp add: ParseFileInfos_def)
  ultimately show ?thesis by blast
qed

theorem header_roundtrip_witness:
  "valid_header ''0644'' 5 ''test.txt'' \<and>
   (\<exists>res. ParseResponse
            (bytes_NewReader []\<lparr>rdata := header_line ''0644'' 5 ''test.txt'' @ ''hello''\<rparr>) =
            Inr (res, bytes_NewReader []\<lparr>rdata := ''hello''\<rparr>) \<and>
          ParseFileInfos res =
            Inr \<lparr>Permissions = 420, Size = 5, Filename = ''test.txt'',
                 Mtime = None, Atime = None\<rparr>)"
proof -
  have v: "valid_header ''0644'' 5 ''test.txt''"
    by (simp add: valid_header_def is_octal_def NL_def)
  have d: "digits_value 8 ''0644'' = 420"
    by (simp add: digits_value_def digit_val_def)
  show ?thesis
    using v header_roundtrip [OF v, where r = "bytes_NewReader []" and rest = "''hello''"]
    by (simp only: d simp_thms)
qed

section \<open>Traces and writes\<close>

lemma bytes_in_append: "bytes_in (a @ b) = bytes_in a @ bytes_in b"
  by (induction a rule: bytes_in.induct) simp_all

lemma bytes_sink_append: "bytes_sink (a @ b) = bytes_sink a @ bytes_sink b"
  by (induction a rule: bytes_sink.induct) simp_all

lemma bytes_in_WriteIn: "bytes_in (map WriteIn cs) = concat cs"
  by (induction cs) simp_all

lemma concat_chunks: "concat (chunks k xs) = xs"
proof (induction k xs rule: chunks.induct)
  case (1 k xs)
  show ?case
  proof (cases "xs = []")
    case True
    then show ?thesis by (subst chunks.simps) simp
  next
    case False
    with 1 have "concat (chunks k (drop (Suc k) xs)) = drop (Suc k) xs" by simp
    with False show ?thesis by (subst chunks.simps) simp
  qed
qed

lemma write_in_free:
  "in_left s = None \<Longrightarrow> write_in bs s = (None, s\<lparr>trace := trace s @ [WriteIn bs]\<rparr>)"
  by (simp add: write_in_def accept_def)

lemma write_in_fits:
  "fits (in_left s) (length bs) \<Longrightarrow>
   fst (write_in bs s) = None \<and> trace (snd (write_in bs s)) = trace s @ [WriteIn bs] \<and>
   out (snd (write_in bs s)) = out s"
  by (auto simp: write_in_def accept_def fits_def split: option.splits)

lemma write_chunks_in_free:
  "in_left s = None \<Longrightarrow>
   write_chunks write_in cs s = (None, s\<lparr>trace := trace s @ map WriteIn cs\<rparr>)"
  by (induction cs arbitrary: s) (simp_all add: write_in_free)

lemma io_Copy_free:
  "in_left s = None \<Longrightarrow>
   io_Copy r s = (rend r, s\<lparr>trace := trace s @ map WriteIn (chunks (rchunk r) (rdata r))\<rparr>)"
  by (simp add: io_Copy_def write_chunks_in_free)

lemma checkResponse_ack:
  "rdata (out s) = NUL # rest \<Longrightarrow>
   checkResponse s = (None, s\<lparr>out := (out s)\<lparr>rdata := rest\<rparr>\<rparr>)"
  by (simp add: checkResponse_def ParseResponse_def IsFailure_def status_of_def NUL_def)

lemma checkResponse_failure:
  "rdata (out s) = CHR 0x02 # m @ NL # rest \<Longrightarrow> NL \<notin> set m \<Longrightarrow>
   checkResponse s = (Some (ErrorString m), s\<lparr>out := (out s)\<lparr>rdata := rest\<rparr>\<rparr>)"
  by (simp add: checkResponse_def ParseResponse_def IsFailure_def status_of_def NUL_def
      GetMessage_def takeWhile_until dropWhile_until)

lemma checkResponse_trace: "trace (snd (checkResponse s)) = trace s"
  by (simp add: checkResponse_def split: sum.splits prod.splits)


section \<open>The upload unit\<close>

lemma upload_unit_acked:
  assumes "in_left s = None" "rdata (out s) = NUL # rest"
  shows "bytes_in (trace (snd (upload_unit r permissions sz filename s))) =
         bytes_in (trace s) @ header_line permissions sz filename @ rdata r @
           (if rend r = None then [NUL] else [])"
  using assms
  by (cases "rend r")
     (simp_all add: upload_unit_def write_in_free checkResponse_ack io_Copy_free
        bytes_in_append bytes_in_WriteIn concat_chunks checkResponse_trace
        split: prod.splits option.splits)


lemma upload_unit_refused:
  assumes "fits (in_left s) (length (header_line permissions sz filename))"
    and "rdata (out s) = CHR 0x02 # m @ NL # rest" and "NL \<notin> set m"
  shows "fst (upload_unit r permissions sz filename s) = Some (ErrorString m)"
    and "trace (snd (upload_unit r permissions sz filename s)) =
         trace s @ [WriteIn (header_line permissions sz filename)]"
proof -
  let ?h = "header_line permissions sz filename"
  obtain s1 where w: "write_in ?h s = (None, s1)"
    and t1: "trace s1 = trace s @ [WriteIn ?h]" and o1: "out s1 = out s"
    using write_in_fits [OF assms(1)] by (cases "write_in ?h s") auto
  have c: "checkResponse s1 = (Some (ErrorString m), s1\<lparr>out := (out s1)\<lparr>rdata := rest\<rparr>\<rparr>)"
    using assms(2,3) o1 by (intro checkResponse_failure) simp_all
  show "fst (upload_unit r permissions sz filename s) = Some (ErrorString m)"
    by (simp add: upload_unit_def w c)
  show "trace (snd (upload_unit r permissions sz filename s)) = trace s @ [WriteIn ?h]"
    by (simp add: upload_unit_def w c t1)
qed

lemma CopyPassThru_started:
  "session_ok w \<Longrightarrow>
   CopyPassThru w sc r remotePath permissions sz passThru =
     (case upload_unit (apply_passThru passThru r sz) permissions sz (path_Base remotePath)
             (log_event (Start ''-qt'' remotePath) (log_event NewSession (init_st w))) of
        (errA, s) \<Rightarrow>
          (case cancelled sc of
             Some e \<Rightarrow> (Some e, s)
           | None \<Rightarrow>
               (first_error (if exit_first sc then [wait_err w, errA] else [errA, wait_err w]),
                s)))"
  by (simp add: CopyPassThru_def session_ok_def Let_def)

lemma CopyPassThru_state:
  "session_ok w \<Longrightarrow>
   snd (CopyPassThru w sc r remotePath permissions sz passThru) =
   snd (upload_unit (apply_passThru passThru r sz) permissions sz (path_Base remotePath)
          (log_event (Start ''-qt'' remotePath) (log_event NewSession (init_st w))))"
  by (simp add: CopyPassThru_started split: prod.splits option.splits)

lemma started_state:
  "in_left (log_event (Start f p) (log_event NewSession (init_st w))) = in_cap w"
  "out (log_event (Start f p) (log_event NewSession (init_st w))) = peer_out w"
  "trace (log_event (Start f p) (log_event NewSession (init_st w))) = [NewSession, Start f p]"
  by (simp_all add: log_event_def init_st_def)

lemma calm_ok: "session_ok (calm bs)" "in_cap (calm bs) = None" "rdata (peer_out (calm bs)) = bs"
  by (simp_all add: calm_def session_ok_def)

section \<open>Upload: a refused header\<close>

text \<open>
  C2, as the code has it. When the session is set up, the header line is written
  and the Response read after it is a Failure with message \<open>m\<close>, the upload writes
  the header line and nothing else to the session's input: no payload byte and no
  terminator. The call returns an error in every run: the context's error when the
  wait was cancelled, the error of the unit waiting for the process to exit when
  that unit sent one first, and otherwise the error whose text is exactly \<open>m\<close>.
\<close>

theorem upload_refused:
  assumes "session_ok w"
    and "fits (in_cap w) (length (header_line permissions sz (path_Base remotePath)))"
    and "rdata (peer_out w) = CHR 0x02 # m @ NL # rest" and "NL \<notin> set m"
  shows "trace (snd (CopyPassThru w sc r remotePath permissions sz passThru)) =
           [NewSession, Start ''-qt'' remotePath,
            WriteIn (header_line permissions sz (path_Base remotePath))] \<and>
         fst (CopyPassThru w sc r remotePath permissions sz passThru) =
           (case cancelled sc of
              Some e \<Rightarrow> Some e
            | None \<Rightarrow>
                if exit_first sc \<and> wait_err w \<noteq> None then wait_err w
                else Some (ErrorString m)) \<and>
         fst (CopyPassThru w sc r remotePath permissions sz passThru) \<noteq> None"
proof -
  let ?s0 = "log_event (Start ''-qt'' remotePath) (log_event NewSession (init_st w))"
  let ?u = "upload_unit (apply_passThru passThru r sz) permissions sz (path_Base remotePath) ?s0"
  have e: "fst ?u = Some (ErrorString m)"
    and t: "trace (snd ?u) = trace ?s0 @ [WriteIn (header_line permissions sz (path_Base remotePath))]"
    using assms(2-4) by (simp_all add: upload_unit_refused started_state)
  obtain s where u: "?u = (Some (ErrorString m), s)" using e by (cases ?u) simp
  show ?thesis
    using t u
    by (cases "wait_err w")
       (simp_all add: CopyPassThru_started [OF assms(1)] started_state split: option.splits)
qed

theorem upload_refused_witness:
  "session_ok (calm (CHR 0x02 # ''no space'' @ [NL])) \<and>
   fits (in_cap (calm (CHR 0x02 # ''no space'' @ [NL])))
     (length (header_line ''0644'' 3 (path_Base ''/tmp/f.txt''))) \<and>
   NL \<notin> set ''no space'' \<and>
   trace (snd (CopyPassThru (calm (CHR 0x02 # ''no space'' @ [NL])) sched0
                 (bytes_NewReader ''abc'') ''/tmp/f.txt'' ''0644'' 3 None)) =
     [NewSession, Start ''-qt'' ''/tmp/f.txt'',
      WriteIn (header_line ''0644'' 3 (path_Base ''/tmp/f.txt''))] \<and>
   fst (CopyPassThru (calm (CHR 0x02 # ''no space'' @ [NL])) sched0
          (bytes_NewReader ''abc'') ''/tmp/f.txt'' ''0644'' 3 None) =
     Some (ErrorString ''no space'')"
proof -
  let ?w = "calm (CHR 0x02 # ''no space'' @ [NL])"
  have h1: "session_ok ?w" by (rule calm_ok)
  have h2: "fits (in_cap ?w) (length (header_line ''0644'' 3 (path_Base ''/tmp/f.txt'')))"
    by (simp add: calm_ok fits_def)
  have h3: "rdata (peer_out ?w) = CHR 0x02 # ''no space'' @ NL # []" by (simp add: calm_ok)
  have h4: "NL \<notin> set ''no space''" by (simp add: NL_def)
  have c: "cancelled sched0 = None" "\<not> exit_first sched0" by (simp_all add: sched0_def)
  show ?thesis
    using h1 h2 h4 c
      upload_refused [OF h1 h2 h3 h4, of sched0 "bytes_NewReader ''abc''" None]
    by simp
qed

text \<open>
  C2 as stated fails: with the Failure "no space" after the header, the call
  returns the process error when the exit waiter sent it first, and the deadline's
  error when the wait was cancelled; neither text contains "no space".
\<close>

theorem upload_refused_counterexample:
  "fst (Copy ((calm (CHR 0x02 # ''no space'' @ [NL]))
               \<lparr>wait_err := Some (ProcessError ''Process exited with status 1'')\<rparr>)
          (sched0\<lparr>exit_first := True\<rparr>)
          (bytes_NewReader ''abc'') ''/tmp/f.txt'' ''0644'' 3) =
     Some (ProcessError ''Process exited with status 1'') \<and>
   \<not> sublist ''no space'' (error_message (ProcessError ''Process exited with status 1'')) \<and>
   fst (Copy (calm (CHR 0x02 # ''no space'' @ [NL]))
          (sched0\<lparr>cancelled := Some DeadlineExceeded\<rparr>)
          (bytes_NewReader ''abc'') ''/tmp/f.txt'' ''0644'' 3) =
     Some DeadlineExceeded \<and>
   \<not> sublist ''no space'' (error_message DeadlineExceeded)"
  by code_simp

section \<open>Upload: the body copy\<close>

text \<open>
  C5, as the code has it. When the session is set up, its input takes every write,
  the header is acknowledged and the source ends cleanly, the bytes written to the
  session's input are the header line, then every byte the source yields, then the
  terminator, whatever the declared size: the declared size only appears in the
  header line.
\<close>

theorem upload_copies_whole_source:
  assumes "session_ok w" and "in_cap w = None" and "rdata (peer_out w) = NUL # rest"
    and "rend (apply_passThru passThru r sz) = None"
  shows "bytes_in (trace (snd (CopyPassThru w sc r remotePath permissions sz passThru))) =
           header_line permissions sz (path_Base remotePath) @
           rdata (apply_passThru passThru r sz) @ [NUL]"
proof -
  let ?s0 = "log_event (Start ''-qt'' remotePath) (log_event NewSession (init_st w))"
  have "bytes_in (trace (snd (upload_unit (apply_passThru passThru r sz) permissions sz
            (path_Base remotePath) ?s0))) =
        bytes_in (trace ?s0) @ header_line permissions sz (path_Base remotePath) @
          rdata (apply_passThru passThru r sz) @ [NUL]"
    using assms(2-4) by (subst upload_unit_acked [where rest = rest]) (simp_all add: started_state)
  then show ?thesis
    by (simp add: CopyPassThru_state [OF assms(1)] started_state)
qed

theorem upload_copies_whole_source_witness:
  "session_ok (calm [NUL, NUL]) \<and> in_cap (calm [NUL, NUL]) = None \<and>
   rend (apply_passThru None (bytes_NewReader ''abcdefg'') 5) = None \<and>
   bytes_in (trace (snd (CopyPassThru (calm [NUL, NUL]) sched0 (bytes_NewReader ''abcdefg'')
                           ''/tmp/f.txt'' ''0644'' 5 None))) =
     header_line ''0644'' 5 (path_Base ''/tmp/f.txt'') @
     rdata (apply_passThru None (bytes_NewReader ''abcdefg'') 5) @ [NUL]"
proof -
  have h1: "session_ok (calm [NUL, NUL])" and h2: "in_cap (calm [NUL, NUL]) = None"
    and h3: "rdata (peer_out (calm [NUL, NUL])) = NUL # [NUL]"
    by (simp_all add: calm_ok)
  have h4: "rend (apply_passThru None (bytes_NewReader ''abcdefg'') 5) = None"
    by (simp add: apply_passThru_def bytes_NewReader_def)
  show ?thesis
    using h1 h2 h4 upload_copies_whole_source [OF h1 h2 h3 h4, of sched0 "''/tmp/f.txt''" "''0644''"]
    by blast
qed

text \<open>
  C5 as stated fails: with a declared size of 5, a source of 7 bytes is sent whole,
  and a source of 3 bytes is sent and followed by the terminator with no error
  from the copy.
\<close>

theorem upload_size_counterexample:
  "fst (Copy (calm [NUL, NUL]) sched0 (bytes_NewReader ''abcdefg'') ''/tmp/f.txt'' ''0644'' 5) = None \<and>
   bytes_in (trace (snd (Copy (calm [NUL, NUL]) sched0 (bytes_NewReader ''abcdefg'')
                           ''/tmp/f.txt'' ''0644'' 5))) =
     ''C0644 5 f.txt'' @ [NL] @ ''abcdefg'' @ [NUL] \<and>
   fst (Copy (calm [NUL, NUL]) sched0 (bytes_NewReader ''abc'') ''/tmp/f.txt'' ''0644'' 5) = None \<and>
   bytes_in (trace (snd (Copy (calm [NUL, NUL]) sched0 (bytes_NewReader ''abc'')
                           ''/tmp/f.txt'' ''0644'' 5))) =
     ''C0644 5 f.txt'' @ [NL] @ ''abc'' @ [NUL]"
  by code_simp

section \<open>Upload of a reader of unknown length\<close>



section \<open>The progress decorator\<close>

lemma wrap64_id: "- (2 ^ 63) \<le> x \<Longrightarrow> x < 2 ^ 63 \<Longrightarrow> wrap64 x = x"
  by (simp add: wrap64_def)

lemma pw_Write_fields:
  "pw_total (fst (pw_Write pw p)) = pw_total pw"
  "pw_onProgress (fst (pw_Write pw p)) = pw_onProgress pw"
  "pw_downloaded (fst (pw_Write pw p)) = wrap64 (pw_downloaded pw + int (length p))"
  by (simp_all add: pw_Write_def Let_def)

lemma pw_Write_calls:
  "snd (pw_Write pw p) =
     (if 0 < pw_total pw \<and> pw_onProgress pw
      then [real_of_int (pw_downloaded (fst (pw_Write pw p))) / real_of_int (pw_total pw)]
      else [])"
  by (simp add: pw_Write_def Let_def)

lemma pw_Writes_Cons:
  "pw_Writes pw (p # ps) =
     (pw_downloaded (fst (pw_Write pw p)) # fst (pw_Writes (fst (pw_Write pw p)) ps),
      snd (pw_Write pw p) @ snd (pw_Writes (fst (pw_Write pw p)) ps))"
  by (simp split: prod.splits)

lemma pw_Writes_length: "length (fst (pw_Writes pw ps)) = length ps"
  by (induction ps arbitrary: pw) (simp_all add: pw_Writes_Cons del: pw_Writes.simps(2))

lemma pw_Writes_calls_pos:
  "0 < pw_total pw \<Longrightarrow> pw_onProgress pw \<Longrightarrow>
   snd (pw_Writes pw ps) =
     map (\<lambda>d. real_of_int d / real_of_int (pw_total pw)) (fst (pw_Writes pw ps))"
  by (induction ps arbitrary: pw)
     (simp_all add: pw_Writes_Cons pw_Write_fields pw_Write_calls del: pw_Writes.simps(2))

lemma pw_Writes_calls_none:
  "pw_total pw \<le> 0 \<or> \<not> pw_onProgress pw \<Longrightarrow> snd (pw_Writes pw ps) = []"
  by (induction ps arbitrary: pw)
     (auto simp add: pw_Writes_Cons pw_Write_fields pw_Write_calls simp del: pw_Writes.simps(2))

lemma pw_Writes_counts:
  "0 \<le> pw_downloaded pw \<Longrightarrow> pw_downloaded pw + int (length (concat ps)) < 2 ^ 63 \<Longrightarrow>
   fst (pw_Writes pw ps) =
     map (\<lambda>k. pw_downloaded pw + int (length (concat (take (Suc k) ps)))) [0..<length ps]"
proof (induction ps arbitrary: pw)
  case Nil
  then show ?case by simp
next
  case (Cons p ps)
  let ?pw = "fst (pw_Write pw p)"
  have d: "pw_downloaded ?pw = pw_downloaded pw + int (length p)"
    using Cons.prems by (simp add: pw_Write_fields wrap64_id)
  have "fst (pw_Writes ?pw ps) =
     map (\<lambda>k. pw_downloaded ?pw + int (length (concat (take (Suc k) ps)))) [0..<length ps]"
    using Cons.prems by (intro Cons.IH) (simp_all add: d)
  then show ?case
    by (simp add: pw_Writes_Cons d upt_rec [of 0 "Suc (length ps)"] map_Suc_upt [symmetric]
        del: pw_Writes.simps(2) upt_Suc)
qed

lemma pw_Writes_sorted:
  "0 \<le> pw_downloaded pw \<Longrightarrow> pw_downloaded pw + int (length (concat ps)) < 2 ^ 63 \<Longrightarrow>
   sorted (pw_downloaded pw # fst (pw_Writes pw ps))"
proof (induction ps arbitrary: pw)
  case Nil
  then show ?case by simp
next
  case (Cons p ps)
  let ?pw = "fst (pw_Write pw p)"
  have d: "pw_downloaded ?pw = pw_downloaded pw + int (length p)"
    using Cons.prems by (simp add: pw_Write_fields wrap64_id)
  have "sorted (pw_downloaded ?pw # fst (pw_Writes ?pw ps))"
    using Cons.prems by (intro Cons.IH) (simp_all add: d)
  then show ?case
    by (auto simp add: pw_Writes_Cons d simp del: pw_Writes.simps(2))
qed

text \<open>
  C9. Over successive calls of \<open>Write\<close>: as long as the count stays within a Go
  \<open>int\<close>, which the size of a transfer guarantees, the running count after each call
  is the count before plus the lengths of the pieces seen so far, and so never
  decreases. When the total is positive (and the callback is set) the callback is
  called once for every piece, with the running count divided by the total. When
  the total is zero or negative the callback is never called.
\<close>

theorem progress_counts:
  "(0 \<le> pw_downloaded pw \<and> pw_downloaded pw + int (length (concat ps)) < 2 ^ 63 \<longrightarrow>
      sorted (pw_downloaded pw # fst (pw_Writes pw ps)) \<and>
      fst (pw_Writes pw ps) =
        map (\<lambda>k. pw_downloaded pw + int (length (concat (take (Suc k) ps))))
          [0..<length ps]) \<and>
   (0 < pw_total pw \<and> pw_onProgress pw \<longrightarrow>
      length (snd (pw_Writes pw ps)) = length ps \<and>
      snd (pw_Writes pw ps) =
        map (\<lambda>d. real_of_int d / real_of_int (pw_total pw)) (fst (pw_Writes pw ps))) \<and>
   (pw_total pw \<le> 0 \<longrightarrow> snd (pw_Writes pw ps) = [])"
  using pw_Writes_sorted [of pw ps] pw_Writes_counts [of pw ps] pw_Writes_calls_pos [of pw ps]
    pw_Writes_calls_none [of pw ps] pw_Writes_length [of pw ps]
  by simp

theorem progress_counts_witness:
  "(0::int) \<le> 0 \<and> (0::int) + int (length (concat [''he'', ''ll'', ''o''])) < 2 ^ 63 \<and>
   sorted (0 # fst (pw_Writes \<lparr>pw_total = 5, pw_downloaded = 0, pw_onProgress = True\<rparr>
                      [''he'', ''ll'', ''o''])) \<and>
   pw_Writes \<lparr>pw_total = 5, pw_downloaded = 0, pw_onProgress = True\<rparr> [''he'', ''ll'', ''o''] =
     ([2, 4, 5], [2 / 5, 4 / 5, 1]) \<and>
   snd (pw_Writes \<lparr>pw_total = 0, pw_downloaded = 0, pw_onProgress = True\<rparr>
          [''he'', ''ll'', ''o'']) = []"
proof -
  let ?pw = "\<lparr>pw_total = 5, pw_downloaded = 0, pw_onProgress = True\<rparr>"
  let ?pz = "\<lparr>pw_total = 0, pw_downloaded = 0, pw_onProgress = True\<rparr>"
  let ?ps = "[''he'', ''ll'', ''o'']"
  have h: "0 \<le> pw_downloaded ?pw \<and> pw_downloaded ?pw + int (length (concat ?ps)) < 2 ^ 63"
    by simp
  have p: "0 < pw_total ?pw \<and> pw_onProgress ?pw" by simp
  have z: "pw_total ?pz \<le> 0" by simp
  have s: "sorted (pw_downloaded ?pw # fst (pw_Writes ?pw ?ps))"
    using h progress_counts [of ?pw ?ps] by blast
  have e: "snd (pw_Writes ?pz ?ps) = []"
    using z progress_counts [of ?pz ?ps] by blast
  have v: "pw_Writes ?pw ?ps = ([2, 4, 5], [2 / 5, 4 / 5, 1])"
    by (simp add: pw_Write_def wrap64_def)
  show ?thesis using s e v by simp
qed

section \<open>The metadata-preserving download\<close>

lemma ParseResponse_line:
  "rdata r = b # m @ NL # rest \<Longrightarrow> b \<noteq> NUL \<Longrightarrow> NL \<notin> set m \<Longrightarrow>
   ParseResponse r = Inr (\<lparr>rtype = b, rmsg = m\<rparr>, r\<lparr>rdata := rest\<rparr>)"
  by (simp add: ParseResponse_def takeWhile_until dropWhile_until)

lemma time_line: "parseFileTime ''T1700000000 0 1700000001 0'' =
    Inr \<lparr>ft_mtime = 1700000000, ft_atime = 1700000001\<rparr>"
  by (simp add: parseFileTime_def split_space_def SP_def parse_integer_def parse_decimal_def
      is_digit_def digits_value_def digit_val_def)

lemma header_line_example: "parseFileInfos ''C0644 5 test.txt'' =
    Inr \<lparr>Permissions = 420, Size = 5, Filename = ''test.txt'', Mtime = None, Atime = None\<rparr>"
  by (simp add: parseFileInfos_def split_space_def SP_def parse_octal_def parse_decimal_def
      is_digit_def is_octal_def digits_value_def digit_val_def)

text \<open>
  A line the two parsers take is a time line or a header line, and neither signals
  failure: the test of lines 662 and 684 lets it pass whatever the marker says.
\<close>

lemma time_line_type: "parseFileTime (b # m) = Inr t \<Longrightarrow> b = CHR ''T''"
  by (simp add: parseFileTime_def split: if_splits)

lemma header_line_type: "parseFileInfos (b # m) = Inr infos \<Longrightarrow> b = CHR ''C''"
  by (simp add: parseFileInfos_def split: if_splits)

lemma data_line_passes:
  "rtype res = CHR ''T'' \<or> rtype res = CHR ''C'' \<Longrightarrow> \<not> IsFailure res"
  by (auto simp: IsFailure_def status_of_def)

lemma preserve_header_ok:
  assumes "stdout_pipe_err w = None" "stdin_pipe_err w = None" "start_err w = None"
    and "in_left s0 = None"
    and "rdata (out s0) = tb # tm @ NL # hb # hm @ NL # payload"
    and "NL \<notin> set tm" "NL \<notin> set hm" "tb \<noteq> NUL" "hb \<noteq> NUL"
    and "parseFileTime (tb # tm) = Inr t" "parseFileInfos (hb # hm) = Inr infos"
  shows "preserve_header w remotePath s0 =
         Inr (Update infos t,
              s0\<lparr>trace := trace s0 @ [Start ''-f -p'' remotePath, WriteIn [NUL], WriteIn [NUL],
                                       WriteIn [NUL]],
                 out := (out s0)\<lparr>rdata := payload\<rparr>\<rparr>)"
proof -
  have tb: "tb = CHR ''T''" and hb: "hb = CHR ''C''"
    using assms(10,11) by (auto dest: time_line_type header_line_type)
  have p: "\<not> IsFailure \<lparr>rtype = CHR ''T'', rmsg = tm\<rparr>"
    "\<not> IsFailure \<lparr>rtype = CHR ''C'', rmsg = hm\<rparr>"
    by (simp_all add: data_line_passes)
  show ?thesis
    using assms p unfolding tb hb
    by (simp add: preserve_header_def Ack_def write_in_def accept_def log_event_def
        ParseResponse_def takeWhile_until dropWhile_until ParseFileTime_def
        ParseFileInfos_def)
qed

text \<open>
  C8. When the session is set up and the peer sends the time line
  \<open>T1700000000 0 1700000001 0\<close> and then the header \<open>C0644 5 test.txt\<close>, the head of
  the preserving download ends with the file infos holding both: modification time
  1700000000, access time 1700000001, size 5, permissions 420 (octal 0644) and name
  \<open>test.txt\<close>. At that point nothing has been written to the destination and the
  stream stands at the payload; the body of the download runs on these merged
  file infos.
\<close>

theorem preserve_download_merges_times:
  assumes "session_ok w" and "in_cap w = None"
    and "rdata (peer_out w) =
           ''T1700000000 0 1700000001 0'' @ [NL] @ ''C0644 5 test.txt'' @ [NL] @ payload"
  shows "\<exists>s. preserve_header w remotePath (log_event NewSession (init_st w)) =
               Inr (\<lparr>Permissions = 420, Size = 5, Filename = ''test.txt'',
                     Mtime = Some 1700000000, Atime = Some 1700000001\<rparr>, s) \<and>
             bytes_sink (trace s) = [] \<and> rdata (out s) = payload \<and>
             CopyFromRemotePreserveProgressPassThru w sc remotePath passThru =
               finish sc (progress_body w sc passThru
                 \<lparr>Permissions = 420, Size = 5, Filename = ''test.txt'',
                  Mtime = Some 1700000000, Atime = Some 1700000001\<rparr> s)"
proof -
  let ?st = "log_event NewSession (init_st w)"
  let ?fin = "?st\<lparr>trace := trace ?st @ [Start ''-f -p'' remotePath, WriteIn [NUL], WriteIn [NUL],
                                       WriteIn [NUL]],
              out := (out ?st)\<lparr>rdata := payload\<rparr>\<rparr>"
  have ok: "stdout_pipe_err w = None" "stdin_pipe_err w = None" "start_err w = None"
    "new_session_err w = None"
    using assms(1) by (simp_all add: session_ok_def)
  have l: "in_left ?st = None" using assms(2) by (simp add: log_event_def init_st_def)
  have d: "rdata (out ?st) = CHR ''T'' # ''1700000000 0 1700000001 0'' @ NL #
             CHR ''C'' # ''0644 5 test.txt'' @ NL # payload"
    using assms(3) by (simp add: log_event_def init_st_def)
  have nn: "NL \<notin> set ''1700000000 0 1700000001 0''" "NL \<notin> set ''0644 5 test.txt''"
    "CHR ''T'' \<noteq> NUL" "CHR ''C'' \<noteq> NUL"
    by (simp_all add: NL_def NUL_def)
  have h: "preserve_header w remotePath ?st =
      Inr (Update \<lparr>Permissions = 420, Size = 5, Filename = ''test.txt'', Mtime = None,
                   Atime = None\<rparr> \<lparr>ft_mtime = 1700000000, ft_atime = 1700000001\<rparr>, ?fin)"
    by (rule preserve_header_ok [OF ok(1-3) l d nn time_line header_line_example])
  have "preserve_header w remotePath ?st =
      Inr (\<lparr>Permissions = 420, Size = 5, Filename = ''test.txt'',
            Mtime = Some 1700000000, Atime = Some 1700000001\<rparr>, ?fin)"
    using h by (simp add: Update_def)
  moreover have "bytes_sink (trace ?fin) = []" "rdata (out ?fin) = payload"
    by (simp_all add: log_event_def init_st_def)
  ultimately show ?thesis
    using ok(4) by (intro exI [of _ ?fin]) (simp add: CopyFromRemotePreserveProgressPassThru_def)
qed

theorem preserve_download_merges_times_witness:
  "session_ok (calm (''T1700000000 0 1700000001 0'' @ [NL] @ ''C0644 5 test.txt'' @ [NL]
                       @ ''hello'')) \<and>
   in_cap (calm (''T1700000000 0 1700000001 0'' @ [NL] @ ''C0644 5 test.txt'' @ [NL]
                   @ ''hello'')) = None \<and>
   (\<exists>s. preserve_header
           (calm (''T1700000000 0 1700000001 0'' @ [NL] @ ''C0644 5 test.txt'' @ [NL]
                    @ ''hello''))
           ''test.txt''
           (log_event NewSession
              (init_st (calm (''T1700000000 0 1700000001 0'' @ [NL] @ ''C0644 5 test.txt''
                                @ [NL] @ ''hello'')))) =
          Inr (\<lparr>Permissions = 420, Size = 5, Filename = ''test.txt'',
                Mtime = Some 1700000000, Atime = Some 1700000001\<rparr>, s) \<and>
        bytes_sink (trace s) = [] \<and> rdata (out s) = ''hello'')"
proof -
  let ?w = "calm (''T1700000000 0 1700000001 0'' @ [NL] @ ''C0644 5 test.txt'' @ [NL]
                    @ ''hello'')"
  have h1: "session_ok ?w" and h2: "in_cap ?w = None"
    and h3: "rdata (peer_out ?w) =
               ''T1700000000 0 1700000001 0'' @ [NL] @ ''C0644 5 test.txt'' @ [NL] @ ''hello''"
    by (rule calm_ok)+
  show ?thesis
    using h1 h2 preserve_download_merges_times [OF h1 h2 h3, of "''test.txt''" sched0 None]
    by blast
qed

section \<open>The detached body copy of the progress downloads\<close>

lemma Ack_result: "fst (Ack s) = (if fits (in_left s) 1 then None else Some write_error)"
  by (simp add: Ack_def write_in_def accept_def fits_def split: option.splits)

lemma write_sink_in_left: "in_left (snd (write_sink c s)) = in_left s"
  by (simp add: write_sink_def accept_def split: option.splits)

lemma tee_chunks_in_left: "in_left (snd (snd (tee_chunks pw cs s))) = in_left s"
proof (induction cs arbitrary: pw s)
  case Nil
  show ?case by simp
next
  case (Cons c cs)
  obtain pw' calls where w: "pw_Write pw c = (pw', calls)" by (cases "pw_Write pw c")
  let ?s = "s\<lparr>trace := trace s @ map Progress calls\<rparr>"
  obtain e s' where k: "write_sink c ?s = (e, s')" by (cases "write_sink c ?s")
  have l: "in_left s' = in_left s" using write_sink_in_left [of c ?s] k by simp
  show ?case
    using Cons.IH [of pw' s'] l by (cases e) (simp_all add: w k)
qed

lemma progress_body_ignores_copy:
  "fst (progress_body w sc passThru infos s) =
     (case fst (Ack s) of
        Some e \<Rightarrow> Sent [Some e, Some e]
      | None \<Rightarrow>
          if run_fails w then OsExit
          else (case wait_err w of
                  Some e \<Rightarrow> Sent [Some e, Some e]
                | None \<Rightarrow> Sent [None]))"
proof -
  let ?r = "apply_passThru passThru (out s) (Size infos)"
  let ?pw = "\<lparr>pw_total = Size infos, pw_downloaded = 0, pw_onProgress = True\<rparr>"
  let ?chs = "chunks (rchunk ?r) (take (nat (Size infos)) (rdata ?r))"
  obtain e1 pw1 s1 where t: "tee_chunks ?pw (take (copied_before_ack sc) ?chs) s = (e1, pw1, s1)"
    by (cases "tee_chunks ?pw (take (copied_before_ack sc) ?chs) s")
  have "in_left s1 = in_left s"
    using tee_chunks_in_left [of ?pw "take (copied_before_ack sc) ?chs" s] t by simp
  then have a: "fst (Ack s1) = fst (Ack s)" by (simp add: Ack_result)
  obtain ea s2 where k: "Ack s1 = (ea, s2)" by (cases "Ack s1")
  show ?thesis
    using a k t by (simp add: progress_body_def Let_def split: option.splits)
qed

text \<open>
  C4. The destination takes two bytes and then fails, so that the body copy of five
  bytes fails after "he": \<open>Start\<close> returns the write error. The progress download
  returns no error; the plain
  download returns the write error on the same world. \<open>progress_body_ignores_copy\<close>
  says the same of every world: what the unit of a progress download sends does
  not depend on the copy.
\<close>

theorem progress_copy_error_dropped:
  "fst (pw_Start \<lparr>pw_total = 5, pw_downloaded = 0, pw_onProgress = True\<rparr>
          \<lparr>rdata = ''hello'' @ [NUL], rend = None, rchunk = 1\<rparr>
          (init_st ((calm [])\<lparr>sink_cap := Some 2\<rparr>))) = Some write_error \<and>
   fst (CopyFromRemoteProgressPassThru
          ((calm (''C0644 5 test.txt'' @ [NL] @ ''hello'' @ [NUL]))\<lparr>sink_cap := Some 2\<rparr>)
          (sched0\<lparr>copied_before_ack := 3\<rparr>) ''test.txt'' None) = Return None \<and>
   bytes_sink (trace (snd (CopyFromRemoteProgressPassThru
          ((calm (''C0644 5 test.txt'' @ [NL] @ ''hello'' @ [NUL]))\<lparr>sink_cap := Some 2\<rparr>)
          (sched0\<lparr>copied_before_ack := 3\<rparr>) ''test.txt'' None))) = ''he'' \<and>
   fst (CopyFromRemotePassThru
          ((calm (''C0644 5 test.txt'' @ [NL] @ ''hello'' @ [NUL]))\<lparr>sink_cap := Some 2\<rparr>)
          sched0 ''test.txt'' None) = Some write_error"
  by code_simp

text \<open>
  C1. In the progress download and in the preserving download, with the detached
  copy not yet scheduled when the protocol unit goes on, the final acknowledgment
  is written to the peer before any payload byte has reached the destination.
\<close>

theorem progress_ack_before_body:
  "trace (snd (CopyFromRemoteProgressPassThru
          (calm (''C0644 5 test.txt'' @ [NL] @ ''hello'' @ [NUL])) sched0 ''test.txt'' None)) =
     [NewSession, Start ''-f'' ''test.txt'', WriteIn [NUL], WriteIn [NUL], WriteIn [NUL],
      Progress (2 / 5), WriteSink ''he'', Progress (4 / 5), WriteSink ''ll'',
      Progress 1, WriteSink ''o''] \<and>
   trace (snd (CopyFromRemotePreserveProgressPassThru
          (calm (''T17 0 18 0'' @ [NL] @ ''C0644 5 test.txt'' @ [NL] @ ''hello'' @ [NUL]))
          sched0 ''test.txt'' None)) =
     [NewSession, Start ''-f -p'' ''test.txt'', WriteIn [NUL], WriteIn [NUL], WriteIn [NUL],
      WriteIn [NUL], Progress (2 / 5), WriteSink ''he'', Progress (4 / 5), WriteSink ''ll'',
      Progress 1, WriteSink ''o'']"
  by code_simp

section \<open>The plain download keeps the order\<close>

lemma write_chunks_sink_ok:
  "write_chunks write_sink cs s = (None, s') \<Longrightarrow> trace s' = trace s @ map WriteSink cs"
proof (induction cs arbitrary: s)
  case Nil
  then show ?case by simp
next
  case (Cons c cs)
  obtain e s1 where k: "write_sink c s = (e, s1)" by (cases "write_sink c s")
  with Cons.prems have e: "e = None" and r: "write_chunks write_sink cs s1 = (None, s')"
    by (cases e; simp)+
  have "trace s1 = trace s @ [WriteSink c]"
    using k e by (auto simp: write_sink_def accept_def split: option.splits if_splits)
  with Cons.IH [OF r] show ?case by simp
qed

lemma write_chunks_sink_quiet:
  "\<exists>evs. trace (snd (write_chunks write_sink cs s)) = trace s @ evs \<and> bytes_in evs = []"
proof (induction cs arbitrary: s)
  case Nil
  show ?case by simp
next
  case (Cons c cs)
  obtain e s1 where k: "write_sink c s = (e, s1)" by (cases "write_sink c s")
  obtain a where t: "trace s1 = trace s @ [WriteSink a]"
    using k by (auto simp: write_sink_def split: prod.splits)
  show ?case
  proof (cases e)
    case (Some x)
    then show ?thesis using k t by simp
  next
    case None
    from Cons.IH [of s1] obtain evs where
      "trace (snd (write_chunks write_sink cs s1)) = trace s1 @ evs" "bytes_in evs = []"
      by blast
    then show ?thesis using k t None by (simp add: bytes_in_append)
  qed
qed

lemma Ack_trace: "\<exists>a. trace (snd (Ack s)) = trace s @ [WriteIn a]"
  by (auto simp: Ack_def write_in_def split: prod.splits)

lemma plain_download_ack_after_body:
  assumes "download_header w remotePath s0 = Inr (infos, s2)"
  shows "\<exists>evs. trace (snd (download_unit w remotePath passThru s0)) = trace s2 @ evs \<and>
           (bytes_in evs = [] \<or>
            (\<exists>cs a. evs = map WriteSink cs @ [WriteIn a] \<and>
                    length (concat cs) = nat (Size infos)))"
proof -
  let ?r = "apply_passThru passThru (out s2) (Size infos)"
  let ?cs = "chunks (rchunk ?r) (take (nat (Size infos)) (rdata ?r))"
  obtain e3 s3 where c: "CopyN ?r (Size infos) s2 = (e3, s3)"
    by (cases "CopyN ?r (Size infos) s2")
  obtain ew sw where wc: "write_chunks write_sink ?cs s2 = (ew, sw)"
    by (cases "write_chunks write_sink ?cs s2")
  from write_chunks_sink_quiet [of ?cs s2] wc obtain evs where
    q: "trace sw = trace s2 @ evs" "bytes_in evs = []" by auto
  have s3: "s3 = sw" using c wc by (cases ew) (simp_all add: CopyN_def)
  show ?thesis
  proof (cases e3)
    case (Some e)
    then show ?thesis using assms c q s3 by (simp add: download_unit_def)
  next
    case None
    then have ok: "ew = None" and len: "nat (Size infos) \<le> length (rdata ?r)"
      using c wc by (cases ew; simp add: CopyN_def split: if_splits)+
    have t3: "trace s3 = trace s2 @ map WriteSink ?cs"
      using write_chunks_sink_ok [of ?cs s2 sw] wc ok s3 by simp
    have l: "length (concat ?cs) = nat (Size infos)"
      using len by (simp add: concat_chunks)
    obtain ea s4 where a: "Ack s3 = (ea, s4)" by (cases "Ack s3")
    obtain b where t4: "trace s4 = trace s3 @ [WriteIn b]" using Ack_trace [of s3] a by auto
    have "trace (snd (download_unit w remotePath passThru s0)) = trace s4"
      using assms c None a by (simp add: download_unit_def split: option.splits)
    then show ?thesis using t3 t4 l by auto
  qed
qed

section \<open>Where a failing body copy is returned\<close>

text \<open>
  In the plain download a failing body copy is what the call returns, unless the
  wait was cancelled; in the upload a source that ends with a read error makes the
  call return an error.
\<close>

lemma plain_copy_error_returned:
  assumes "new_session_err w = None"
    and "download_header w remotePath (log_event NewSession (init_st w)) = Inr (infos, s2)"
    and "fst (CopyN (apply_passThru passThru (out s2) (Size infos)) (Size infos) s2) = Some e"
  shows "fst (CopyFromRemotePassThru w sc remotePath passThru) =
           (case cancelled sc of Some c \<Rightarrow> Some c | None \<Rightarrow> Some e)"
proof -
  obtain s3 where "CopyN (apply_passThru passThru (out s2) (Size infos)) (Size infos) s2 =
      (Some e, s3)"
    using assms(3) by (cases "CopyN (apply_passThru passThru (out s2) (Size infos)) (Size infos) s2") simp
  then show ?thesis
    using assms(1,2)
    by (simp add: CopyFromRemotePassThru_def download_unit_def receive_def split: option.splits)
qed

lemma upload_copy_error_returned:
  assumes "session_ok w" and "in_cap w = None" and "rdata (peer_out w) = NUL # rest"
    and "rend (apply_passThru passThru r sz) = Some e"
  shows "fst (CopyPassThru w sc r remotePath permissions sz passThru) \<noteq> None"
proof -
  let ?st = "log_event (Start ''-qt'' remotePath) (log_event NewSession (init_st w))"
  have "fst (upload_unit (apply_passThru passThru r sz) permissions sz (path_Base remotePath) ?st)
        = Some e"
    using assms(2-4)
    by (simp add: upload_unit_def write_in_free checkResponse_ack io_Copy_free started_state)
  then show ?thesis
    by (cases "wait_err w")
       (auto simp add: CopyPassThru_started [OF assms(1)] split: prod.splits option.splits)
qed

section \<open>A cancelled wait\<close>

text \<open>
  When \<open>wait\<close> returns the context's error, every entry point returns that error,
  whatever its units did. Whether the context or the wait group is first is the
  scheduler's decision, an input here.
\<close>

lemma cancelled_upload:
  "session_ok w \<Longrightarrow> cancelled sc = Some e \<Longrightarrow>
   fst (CopyPassThru w sc r remotePath permissions sz passThru) = Some e"
  by (simp add: CopyPassThru_started split: prod.splits)

lemma cancelled_download:
  "new_session_err w = None \<Longrightarrow> cancelled sc = Some e \<Longrightarrow>
   fst (CopyFromRemotePassThru w sc remotePath passThru) = Some e \<and>
   fst (CopyFromRemoteProgressPassThru w sc remotePath passThru) = Return (Some e) \<and>
   fst (CopyFromRemotePreserveProgressPassThru w sc remotePath passThru) = Return (Some e)"
  by (simp add: CopyFromRemotePassThru_def CopyFromRemoteProgressPassThru_def
      CopyFromRemotePreserveProgressPassThru_def finish_def split: prod.splits sum.splits)

end
